theory Spec2Isabelle
  imports Complex_Main "HOL-Library.Sublist" "HOL-Library.Multiset"
begin

section \<open>Values shared by the handlers\<close>

text \<open>
  Document identifiers are MongoDB ObjectIds. The handlers compare them through
  \<^verbatim>\<open>toString()\<close>, so the model carries an identifier as its hexadecimal string and
  compares by value. An identifier the driver generates for a new document and the
  clock value of its \<^verbatim>\<open>createdAt\<close> stamp are inputs of the operation that
  creates the document. Identifiers are taken to be well formed: the cast failure of a
  malformed identifier is outside the model.

  A field of a request body is \<open>None\<close> when the request does not carry it. The
  JavaScript test \<^verbatim>\<open>!x\<close> holds for an absent field, for the empty string and for
  the number zero. The model covers a body field of the type its handler expects: a
  string for an identifier, a status or a text, a number for a rating.

  A string is a list of characters. \<^verbatim>\<open>trim()\<close> removes the white space at both
  ends of a string: the space, the tab, the line feed, the vertical tab, the form feed
  and the carriage return. The other white space characters of Unicode are outside the
  model.
\<close>

type_synonym objectId = string

text \<open>
  What a handler throws: an \<^verbatim>\<open>ApiError\<close> with its status code and message, or an
  error of the store (a schema validator or a unique index refuses the document), which
  the HTTP handlers do not catch.
\<close>

datatype api_error =
    ApiError nat string
  | ValidationError
  | DuplicateKeyError

definition falsy :: "string option \<Rightarrow> bool" where
  "falsy v = (case v of None \<Rightarrow> True | Some s \<Rightarrow> s = [])"

definition falsy_num :: "real option \<Rightarrow> bool" where
  "falsy_num v = (case v of None \<Rightarrow> True | Some x \<Rightarrow> x = 0)"

definition is_whitespace :: "char \<Rightarrow> bool" where
  "is_whitespace c = (c \<in> {CHR '' '', CHR 0x09, CHR 0x0A, CHR 0x0B, CHR 0x0C, CHR 0x0D})"

definition trim :: "string \<Rightarrow> string" where
  "trim s = rev (dropWhile is_whitespace (rev (dropWhile is_whitespace s)))"

datatype notification_event =
    TRADE_REQUEST_RECEIVED
  | TRADE_REQUEST_ACCEPTED
  | TRADE_REQUEST_REJECTED
  | TRADE_REQUEST_COMPLETED
  | TRADE_MARKED_COMPLETE
  | REVIEW_RECEIVED

text \<open>
  A handler's calls of \<^verbatim>\<open>sendNotificationToUser(userId, event, data)\<close>, in the order
  it makes them: the user addressed, the event and the trade the payload names. The
  populated names and profile images of the payload are not modelled.
\<close>

datatype notification = Notification objectId notification_event objectId

section \<open>Trade requests\<close>

text \<open>
  Modelled from the spec: the schema of \<^verbatim>\<open>models/tradeRequest.model.js\<close> is not among
  the sources. A trade request has the fields the controller reads and writes; a new
  document has status \<^verbatim>\<open>pending\<close> and an empty \<^verbatim>\<open>completedBy\<close>.
\<close>

record trade =
  trade_id :: objectId
  trade_sender :: objectId
  trade_receiver :: objectId
  trade_senderOfferedSkill :: objectId
  trade_receiverOfferedSkill :: objectId
  trade_status :: string
  trade_completedBy :: "objectId list"
  trade_message :: "string option"
  trade_createdAt :: nat

definition TradeRequestModel_findById :: "trade list \<Rightarrow> objectId \<Rightarrow> trade option" where
  "TradeRequestModel_findById trades i = find (\<lambda>t. trade_id t = i) trades"

text \<open>\<^verbatim>\<open>trade.save()\<close>: the stored document with the trade's identifier is replaced.\<close>

definition TradeRequestModel_save :: "trade list \<Rightarrow> trade \<Rightarrow> trade list" where
  "TradeRequestModel_save trades t = map (\<lambda>d. if trade_id d = trade_id t then t else d) trades"

text \<open>The filter of the duplicate check of \<^verbatim>\<open>createTradeRequest\<close>.\<close>

definition pending_duplicate ::
  "objectId \<Rightarrow> objectId \<Rightarrow> objectId \<Rightarrow> objectId \<Rightarrow> trade \<Rightarrow> bool" where
  "pending_duplicate senderId receiverId senderOfferedSkillId receiverOfferedSkillId t =
     (trade_sender t = senderId \<and> trade_receiver t = receiverId \<and>
      trade_senderOfferedSkill t = senderOfferedSkillId \<and>
      trade_receiverOfferedSkill t = receiverOfferedSkillId \<and>
      trade_status t = ''pending'')"

text \<open>
  \<^verbatim>\<open>createTradeRequest\<close>: the response, the trade store after the call and the
  notifications sent. \<open>newId\<close> and \<open>now\<close> are the identifier and the creation
  time the store gives the new document.
\<close>

definition createTradeRequest ::
  "trade list \<Rightarrow> objectId \<Rightarrow> string option \<Rightarrow> string option \<Rightarrow> string option \<Rightarrow>
   string option \<Rightarrow> objectId \<Rightarrow> nat \<Rightarrow> (api_error + trade) \<times> trade list \<times> notification list" where
  "createTradeRequest trades senderId receiverId senderOfferedSkillId receiverOfferedSkillId
     msg newId now =
    (if falsy receiverId \<or> falsy senderOfferedSkillId \<or> falsy receiverOfferedSkillId
     then (Inl (ApiError 400 ''Missing required fields''), trades, [])
     else if the receiverId = senderId
     then (Inl (ApiError 400 ''You cannot trade with yourself''), trades, [])
     else
       (case find (pending_duplicate senderId (the receiverId) (the senderOfferedSkillId)
                     (the receiverOfferedSkillId)) trades of
          Some existing \<Rightarrow> (Inl (ApiError 400 ''A pending trade already exists''), trades, [])
        | None \<Rightarrow>
            (let t = \<lparr> trade_id = newId, trade_sender = senderId,
                       trade_receiver = the receiverId,
                       trade_senderOfferedSkill = the senderOfferedSkillId,
                       trade_receiverOfferedSkill = the receiverOfferedSkillId,
                       trade_status = ''pending'', trade_completedBy = [],
                       trade_message = msg, trade_createdAt = now \<rparr>
             in (Inr t, trades @ [t],
                 [Notification (the receiverId) TRADE_REQUEST_RECEIVED newId]))))"

text \<open>
  The body of \<^verbatim>\<open>updateTradeStatus\<close> on the document it has loaded: the two
  guards, then the three status branches. The result is the mutated document and the
  notifications sent; an error leaves the document as it was. \<^verbatim>\<open>completedBy\<close> is
  the document's array of user identifiers; its \<^verbatim>\<open>includes\<close> compares identifiers
  by value, and \<^verbatim>\<open>push\<close> appends at the end.
\<close>

definition updateTradeStatus_doc ::
  "trade \<Rightarrow> string \<Rightarrow> objectId \<Rightarrow> api_error + trade \<times> notification list" where
  "updateTradeStatus_doc t0 statusReq userId =
    (let senderId = trade_sender t0; receiverId = trade_receiver t0 in
     if userId \<notin> set [senderId, receiverId] then Inl (ApiError 403 ''Not authorized'')
     else if statusReq \<notin> set [''accepted'', ''rejected'', ''completed'']
     then Inl (ApiError 400 ''Invalid status'')
     else
       (let notifyUserId = (if userId = senderId then receiverId else senderId);
            (t1, n1) = (if statusReq = ''accepted''
                        then (t0\<lparr>trade_status := statusReq\<rparr>,
                              [Notification senderId TRADE_REQUEST_ACCEPTED (trade_id t0)])
                        else (t0, []));
            (t2, n2) = (if statusReq = ''rejected''
                        then (t1\<lparr>trade_status := statusReq\<rparr>,
                              n1 @ [Notification senderId TRADE_REQUEST_REJECTED (trade_id t0)])
                        else (t1, n1));
            (t3, n3) = (if statusReq = ''completed''
                        then (let t2' = (if userId \<notin> set (trade_completedBy t2)
                                         then t2\<lparr>trade_completedBy := trade_completedBy t2 @ [userId]\<rparr>
                                         else t2)
                              in if length (trade_completedBy t2') = 2 \<and>
                                    list_ex (\<lambda>i. i = senderId) (trade_completedBy t2') \<and>
                                    list_ex (\<lambda>i. i = receiverId) (trade_completedBy t2')
                                 then (t2'\<lparr>trade_status := ''completed''\<rparr>,
                                       n2 @ [Notification senderId TRADE_REQUEST_COMPLETED (trade_id t0),
                                             Notification receiverId TRADE_REQUEST_COMPLETED (trade_id t0)])
                                 else (t2', n2 @ [Notification notifyUserId TRADE_MARKED_COMPLETE (trade_id t0)]))
                        else (t2, n2))
        in Inr (t3, n3)))"

text \<open>
  \<^verbatim>\<open>updateTradeStatus\<close>: load by identifier, run the body, save. The result is the
  response, the trade store after the call and the notifications sent.
\<close>

definition updateTradeStatus ::
  "trade list \<Rightarrow> objectId \<Rightarrow> string \<Rightarrow> objectId \<Rightarrow>
   (api_error + trade) \<times> trade list \<times> notification list" where
  "updateTradeStatus trades i statusReq userId =
    (case TradeRequestModel_findById trades i of
       None \<Rightarrow> (Inl (ApiError 404 ''Trade not found''), trades, [])
     | Some t0 \<Rightarrow>
         (case updateTradeStatus_doc t0 statusReq userId of
            Inl e \<Rightarrow> (Inl e, trades, [])
          | Inr (t, ns) \<Rightarrow> (Inr t, TradeRequestModel_save trades t, ns)))"


section \<open>Reviews\<close>

text \<open>
  A stored review, as \<^verbatim>\<open>models/review.model.js\<close> declares it. The rating is a
  JavaScript number; the model takes it as a real number, exact where the handlers only
  compare it with \<open>1\<close> and \<open>5\<close>.
\<close>

record review =
  review_id :: objectId
  review_tradeRequest :: objectId
  review_reviewer :: objectId
  review_reviewee :: objectId
  review_rating :: real
  review_review :: string
  review_skillReviewed :: objectId
  review_createdAt :: nat

text \<open>
  Modelled from the spec: \<^verbatim>\<open>models/skillProfile.model.js\<close> is not among the sources.
  Of a skill profile the review controller reads the owner and writes the rating.
\<close>

record skillProfile =
  profile_userId :: objectId
  profile_rating :: real

text \<open>
  The input validation of \<^verbatim>\<open>submitReview\<close>: the first failing check, or
  \<open>None\<close> when all three pass. The length bound is on the text as sent, the emptiness
  test on the trimmed text.
\<close>

definition validateReviewInput ::
  "real option \<Rightarrow> string option \<Rightarrow> string option \<Rightarrow> api_error option" where
  "validateReviewInput rating reviewText revieweeId =
    (if falsy_num rating \<or> falsy reviewText \<or> falsy revieweeId
     then Some (ApiError 400 ''Rating, review text, and reviewee ID are required'')
     else if the rating < 1 \<or> the rating > 5
     then Some (ApiError 400 ''Rating must be between 1 and 5'')
     else if length (trim (the reviewText)) = 0 \<or> length (the reviewText) > 500
     then Some (ApiError 400 ''Review must be between 1 and 500 characters'')
     else None)"

text \<open>\<^verbatim>\<open>ReviewModel.findOne({tradeRequest, reviewer, reviewee})\<close>.\<close>

definition ReviewModel_findOne ::
  "review list \<Rightarrow> objectId \<Rightarrow> objectId \<Rightarrow> objectId \<Rightarrow> review option" where
  "ReviewModel_findOne reviews tradeId reviewerId revieweeId =
     find (\<lambda>r. review_tradeRequest r = tradeId \<and> review_reviewer r = reviewerId \<and>
               review_reviewee r = revieweeId) reviews"

text \<open>
  \<^verbatim>\<open>ReviewModel.create\<close>: the schema's validators (rating from 1 to 5, a text
  that is not empty and at most 500 characters once trimmed) and the unique index on
  (tradeRequest, reviewer, reviewee). The store trims the text.
\<close>

definition ReviewModel_create :: "review list \<Rightarrow> review \<Rightarrow> api_error + review" where
  "ReviewModel_create reviews r =
    (let r' = r\<lparr>review_review := trim (review_review r)\<rparr> in
     if review_rating r' < 1 \<or> review_rating r' > 5 \<or> review_review r' = [] \<or>
        length (review_review r') > 500
     then Inl ValidationError
     else if ReviewModel_findOne reviews (review_tradeRequest r') (review_reviewer r')
               (review_reviewee r') \<noteq> None
     then Inl DuplicateKeyError
     else Inr r')"

text \<open>
  A value compared with a stored identifier. The store's query operations
  (\<^verbatim>\<open>find\<close>, \<^verbatim>\<open>findOne\<close>, \<^verbatim>\<open>findOneAndUpdate\<close>, \<^verbatim>\<open>updateMany\<close>,
  \<^verbatim>\<open>countDocuments\<close>, \<^verbatim>\<open>create\<close>) cast their arguments to the schema's types, so a
  string there matches the stored ObjectId of the same hexadecimal form. The stages of an
  aggregation pipeline are sent as they are written: in a \<^verbatim>\<open>$match\<close> a string
  is not equal to a stored ObjectId. The pipeline of the \<^verbatim>\<open>user:join\<close> handler in
  \<^verbatim>\<open>socket.service.js\<close> builds an ObjectId from its string for this comparison.
\<close>

datatype query_value = ObjectIdValue objectId | StringValue string

definition hex_of :: "query_value \<Rightarrow> objectId" where
  "hex_of v = (case v of ObjectIdValue i \<Rightarrow> i | StringValue s \<Rightarrow> s)"

definition pipeline_match :: "objectId \<Rightarrow> query_value \<Rightarrow> bool" where
  "pipeline_match stored v = (v = ObjectIdValue stored)"

text \<open>
  The pipeline of \<^verbatim>\<open>updateUserRating\<close>: \<^verbatim>\<open>$match\<close> on the reviewee, then one
  group with the average rating and the number of reviews. No matching review gives no
  group.
\<close>

definition ReviewModel_aggregate_rating :: "review list \<Rightarrow> query_value \<Rightarrow> (real \<times> nat) list" where
  "ReviewModel_aggregate_rating reviews userId =
    (let rs = filter (\<lambda>r. pipeline_match (review_reviewee r) userId) reviews in
     if rs = [] then []
     else [(sum_list (map review_rating rs) / real (length rs), length rs)])"

text \<open>\<^verbatim>\<open>Math.round\<close> rounds to the nearest integer, a half upwards.\<close>

definition Math_round :: "real \<Rightarrow> real" where
  "Math_round x = of_int \<lfloor>x + 1 / 2\<rfloor>"

text \<open>
  \<^verbatim>\<open>SkillProfileModel.findOneAndUpdate({userId}, {rating}, {upsert: false})\<close>: the first
  profile of the user gets the rating; without one nothing is written.
\<close>

fun SkillProfileModel_findOneAndUpdate ::
  "skillProfile list \<Rightarrow> objectId \<Rightarrow> real \<Rightarrow> skillProfile list" where
  "SkillProfileModel_findOneAndUpdate [] userId r = []"
| "SkillProfileModel_findOneAndUpdate (p # ps) userId r =
     (if profile_userId p = userId then p\<lparr>profile_rating := r\<rparr> # ps
      else p # SkillProfileModel_findOneAndUpdate ps userId r)"

text \<open>
  \<^verbatim>\<open>updateUserRating\<close>: the profiles after the call. \<open>fault\<close> stands for an
  exception inside the \<^verbatim>\<open>try\<close> block (the aggregation, the import or the update
  throws): the \<^verbatim>\<open>catch\<close> logs it and the function returns normally.
\<close>

definition updateUserRating ::
  "review list \<Rightarrow> skillProfile list \<Rightarrow> query_value \<Rightarrow> bool \<Rightarrow> skillProfile list" where
  "updateUserRating reviews profiles userId fault =
    (if fault then profiles
     else
       (let ratingStats = ReviewModel_aggregate_rating reviews userId;
            averageRating = (case ratingStats of [] \<Rightarrow> 0
                             | (avg, n) # rest \<Rightarrow> if avg = 0 then 0 else avg)
        in SkillProfileModel_findOneAndUpdate profiles (hex_of userId)
             (Math_round (averageRating * 10) / 10)))"

text \<open>
  \<^verbatim>\<open>submitReview\<close>: the response, the reviews and the profiles after the call, and
  the notifications sent. \<open>reviewerId\<close> is the authenticated user; \<open>rating\<close>,
  \<open>reviewText\<close> and \<open>revieweeId\<close> are the fields of the request body, the last a
  string.
\<close>

definition submitReview ::
  "trade list \<Rightarrow> review list \<Rightarrow> skillProfile list \<Rightarrow> objectId \<Rightarrow> objectId \<Rightarrow>
   real option \<Rightarrow> string option \<Rightarrow> string option \<Rightarrow> objectId \<Rightarrow> nat \<Rightarrow> bool \<Rightarrow>
   (api_error + review) \<times> review list \<times> skillProfile list \<times> notification list" where
  "submitReview trades reviews profiles tradeId reviewerId rating reviewText revieweeId
     newId now fault =
    (case validateReviewInput rating reviewText revieweeId of
       Some e \<Rightarrow> (Inl e, reviews, profiles, [])
     | None \<Rightarrow>
        (case TradeRequestModel_findById trades tradeId of
           None \<Rightarrow> (Inl (ApiError 404 ''Trade request not found''), reviews, profiles, [])
         | Some t \<Rightarrow>
            if trade_status t \<noteq> ''completed''
            then (Inl (ApiError 400 ''You can only review completed trades''), reviews, profiles, [])
            else
              (let isSender = (trade_sender t = reviewerId);
                   isReceiver = (trade_receiver t = reviewerId)
               in if \<not> isSender \<and> \<not> isReceiver
                  then (Inl (ApiError 403 ''You are not authorized to review this trade''),
                        reviews, profiles, [])
                  else
                    (let isRevieweeValid =
                           ((isSender \<and> trade_receiver t = the revieweeId) \<or>
                            (isReceiver \<and> trade_sender t = the revieweeId))
                     in if \<not> isRevieweeValid
                        then (Inl (ApiError 400 ''You can only review the other party in this trade''),
                              reviews, profiles, [])
                        else
                          (let skillReviewed = (if isSender then trade_receiverOfferedSkill t
                                                else trade_senderOfferedSkill t)
                           in if ReviewModel_findOne reviews tradeId reviewerId (the revieweeId) \<noteq> None
                              then (Inl (ApiError 400 ''You have already reviewed this trade''),
                                    reviews, profiles, [])
                              else
                                (case ReviewModel_create reviews
                                        \<lparr> review_id = newId, review_tradeRequest = tradeId,
                                          review_reviewer = reviewerId,
                                          review_reviewee = the revieweeId,
                                          review_rating = the rating,
                                          review_review = trim (the reviewText),
                                          review_skillReviewed = skillReviewed,
                                          review_createdAt = now \<rparr> of
                                   Inl e \<Rightarrow> (Inl e, reviews, profiles, [])
                                 | Inr newReview \<Rightarrow>
                                     (let reviews' = reviews @ [newReview];
                                          profiles' = updateUserRating reviews' profiles
                                                        (StringValue (the revieweeId)) fault
                                      in (Inr newReview, reviews', profiles',
                                          [Notification (the revieweeId) REVIEW_RECEIVED tradeId]))))))))"

section \<open>Chat messages\<close>

text \<open>
  A stored message, as the message schema declares it; \<^verbatim>\<open>read\<close> defaults to
  false. Of the two timestamps only \<^verbatim>\<open>createdAt\<close>, which orders the history, is
  modelled.
\<close>

record chatMessage =
  msg_id :: objectId
  msg_sender :: objectId
  msg_receiver :: objectId
  msg_tradeId :: objectId
  msg_message :: string
  msg_read :: bool
  msg_createdAt :: nat


text \<open>
  \<^verbatim>\<open>getChatHistory\<close>: the messages returned, read before the update and sorted by
  creation time (messages of equal time in the order of the store), and the message store
  after \<^verbatim>\<open>updateMany\<close>. The populated names of sender and receiver are not modelled.
\<close>

definition getChatHistory ::
  "chatMessage list \<Rightarrow> objectId \<Rightarrow> objectId \<Rightarrow> chatMessage list \<times> chatMessage list" where
  "getChatHistory msgs tradeId userId =
    (let found = sort_key msg_createdAt (filter (\<lambda>m. msg_tradeId m = tradeId) msgs);
         msgs' = map (\<lambda>m. if msg_tradeId m = tradeId \<and> msg_receiver m = userId \<and> msg_read m = False
                           then m\<lparr>msg_read := True\<rparr> else m) msgs
     in (found, msgs'))"

definition getUnreadCount :: "chatMessage list \<Rightarrow> objectId \<Rightarrow> nat" where
  "getUnreadCount msgs userId =
     length (filter (\<lambda>m. msg_receiver m = userId \<and> msg_read m = False) msgs)"

section \<open>The presence registry and the socket handlers\<close>

text \<open>
  The module state of \<^verbatim>\<open>socket.service.js\<close>: the map \<^verbatim>\<open>userSockets\<close> from a user
  identifier to a socket identifier, the property \<^verbatim>\<open>socket.userId\<close> of each
  connection, and whether \<^verbatim>\<open>io\<close> has been initialised.
\<close>

record socket_state =
  userSockets :: "string \<rightharpoonup> string"
  socket_userId :: "string \<rightharpoonup> string"
  io_initialized :: bool

text \<open>
  What a handler emits: the socket addressed, the event name and the payload. The
  payload of a notification is the trade it names.
\<close>

datatype conversation = Conversation objectId string nat string objectId

datatype payload =
    MessageData objectId objectId objectId objectId string nat
  | ErrorMessage string
  | UnreadMessages nat "conversation list"
  | NotificationData objectId

datatype emitted = Emit string string payload

definition event_name :: "notification_event \<Rightarrow> string" where
  "event_name e = (case e of
       TRADE_REQUEST_RECEIVED \<Rightarrow> ''notification:trade_request_received''
     | TRADE_REQUEST_ACCEPTED \<Rightarrow> ''notification:trade_request_accepted''
     | TRADE_REQUEST_REJECTED \<Rightarrow> ''notification:trade_request_rejected''
     | TRADE_REQUEST_COMPLETED \<Rightarrow> ''notification:trade_request_completed''
     | TRADE_MARKED_COMPLETE \<Rightarrow> ''notification:trade_marked_complete''
     | REVIEW_RECEIVED \<Rightarrow> ''notification:review_received'')"

definition getUserSocketId :: "socket_state \<Rightarrow> string \<Rightarrow> string option" where
  "getUserSocketId st userId = userSockets st userId"

text \<open>
  \<^verbatim>\<open>sendNotificationToUser\<close>: whether the event was delivered, and what was emitted.
\<close>

definition sendNotificationToUser ::
  "socket_state \<Rightarrow> string \<Rightarrow> notification_event \<Rightarrow> objectId \<Rightarrow> bool \<times> emitted list" where
  "sendNotificationToUser st userId event tradeId =
    (let socketId = getUserSocketId st userId;
         delivered = (\<not> falsy socketId \<and> io_initialized st)
     in if delivered then (True, [Emit (the socketId) (event_name event) (NotificationData tradeId)])
        else (False, []))"

text \<open>
  The unread conversations of the \<^verbatim>\<open>user:join\<close> pipeline: the unread messages of
  the user grouped by sender (groups in the order of their first message), each with
  its count and the text and trade of its last message; a group whose sender has no
  user document is dropped by \<^verbatim>\<open>$unwind\<close>. \<open>users\<close> gives the name of each user.
\<close>

definition unread_conversations ::
  "(objectId \<rightharpoonup> string) \<Rightarrow> chatMessage list \<Rightarrow> objectId \<Rightarrow> conversation list" where
  "unread_conversations users msgs userId =
    (let unread = filter (\<lambda>m. msg_receiver m = userId \<and> msg_read m = False) msgs in
     concat (map (\<lambda>s. let g = filter (\<lambda>m. msg_sender m = s) unread in
                        (case users s of
                           None \<Rightarrow> []
                         | Some senderName \<Rightarrow>
                             [Conversation s senderName (length g) (msg_message (last g))
                                (msg_tradeId (last g))]))
                 (remdups (map msg_sender unread))))"

text \<open>
  The \<^verbatim>\<open>user:join\<close> handler of the connection \<open>socketId\<close>: the registry after the
  event and what the handler emits.
\<close>

definition user_join ::
  "socket_state \<Rightarrow> (objectId \<rightharpoonup> string) \<Rightarrow> chatMessage list \<Rightarrow> string \<Rightarrow> string option \<Rightarrow>
   socket_state \<times> emitted list" where
  "user_join st users msgs socketId userId =
    (if falsy userId then (st, [])
     else
       (let userIdStr = the userId;
            st' = st\<lparr> userSockets := (userSockets st)(userIdStr \<mapsto> socketId),
                      socket_userId := (socket_userId st)(socketId \<mapsto> userIdStr) \<rparr>;
            unreadCount = getUnreadCount msgs userIdStr
        in if unreadCount > 0
           then (st', [Emit socketId ''unread:messages''
                         (UnreadMessages unreadCount (unread_conversations users msgs userIdStr))])
           else (st', [])))"

text \<open>The \<^verbatim>\<open>disconnect\<close> handler of the connection \<open>socketId\<close>.\<close>

definition disconnect :: "socket_state \<Rightarrow> string \<Rightarrow> socket_state" where
  "disconnect st socketId =
    (if \<not> falsy (socket_userId st socketId)
     then st\<lparr> userSockets := (userSockets st)(the (socket_userId st socketId) := None) \<rparr>
     else st)"


section \<open>The stores the handlers can reach\<close>

text \<open>
  The trade and review stores the three handlers that write them can produce from empty
  stores, by any requests in any order. No handler deletes a trade or a review.
\<close>

inductive reachable :: "trade list \<Rightarrow> review list \<Rightarrow> bool" where
  initial: "reachable [] []"
| created: "reachable trades reviews \<Longrightarrow>
     reachable (fst (snd (createTradeRequest trades senderId receiverId senderOfferedSkillId
                            receiverOfferedSkillId msg newId now))) reviews"
| updated: "reachable trades reviews \<Longrightarrow>
     reachable (fst (snd (updateTradeStatus trades i statusReq userId))) reviews"
| reviewed: "reachable trades reviews \<Longrightarrow>
     reachable trades
       (fst (snd (submitReview trades reviews profiles tradeId reviewerId rating reviewText
                    revieweeId newId now fault)))"

text \<open>Reviewer and reviewee of a review are the two participants of its stored trade.\<close>

definition participants :: "trade list \<Rightarrow> review \<Rightarrow> bool" where
  "participants trades r =
     (\<exists>t. TradeRequestModel_findById trades (review_tradeRequest r) = Some t \<and>
          ((trade_sender t = review_reviewer r \<and> trade_receiver t = review_reviewee r) \<or>
           (trade_receiver t = review_reviewer r \<and> trade_sender t = review_reviewee r)))"

section \<open>Example data\<close>

definition example_trade :: trade where
  "example_trade =
     \<lparr> trade_id = ''t1'', trade_sender = ''alice'', trade_receiver = ''bob'',
       trade_senderOfferedSkill = ''piano'', trade_receiverOfferedSkill = ''chess'',
       trade_status = ''pending'', trade_completedBy = [],
       trade_message = None, trade_createdAt = 0 \<rparr>"

definition example_completed_trade :: trade where
  "example_completed_trade =
     example_trade\<lparr>trade_status := ''completed'', trade_completedBy := [''alice'', ''bob'']\<rparr>"

definition example_reviews :: "review list" where
  "example_reviews =
     [\<lparr> review_id = ''r1'', review_tradeRequest = ''t2'', review_reviewer = ''carol'',
        review_reviewee = ''bob'', review_rating = 5, review_review = ''great'',
        review_skillReviewed = ''chess'', review_createdAt = 1 \<rparr>,
      \<lparr> review_id = ''r2'', review_tradeRequest = ''t3'', review_reviewer = ''dave'',
        review_reviewee = ''bob'', review_rating = 4, review_review = ''good'',
        review_skillReviewed = ''chess'', review_createdAt = 2 \<rparr>]"

definition example_review :: review where
  "example_review =
     \<lparr> review_id = ''r3'', review_tradeRequest = ''t1'', review_reviewer = ''alice'',
       review_reviewee = ''bob'', review_rating = 3, review_review = ''fine'',
       review_skillReviewed = ''chess'', review_createdAt = 7 \<rparr>"

definition example_profiles :: "skillProfile list" where
  "example_profiles = [\<lparr> profile_userId = ''bob'', profile_rating = 9 / 2 \<rparr>]"

definition example_messages :: "chatMessage list" where
  "example_messages =
     [\<lparr> msg_id = ''m2'', msg_sender = ''bob'', msg_receiver = ''alice'', msg_tradeId = ''t1'',
        msg_message = ''hello'', msg_read = False, msg_createdAt = 5 \<rparr>,
      \<lparr> msg_id = ''m1'', msg_sender = ''alice'', msg_receiver = ''bob'', msg_tradeId = ''t1'',
        msg_message = ''hi'', msg_read = False, msg_createdAt = 3 \<rparr>,
      \<lparr> msg_id = ''m3'', msg_sender = ''carol'', msg_receiver = ''alice'', msg_tradeId = ''t2'',
        msg_message = ''hey'', msg_read = False, msg_createdAt = 4 \<rparr>]"

definition example_sockets :: socket_state where
  "example_sockets =
     \<lparr> userSockets = [''alice'' \<mapsto> ''s1''], socket_userId = [''s1'' \<mapsto> ''alice''],
       io_initialized = True \<rparr>"

section \<open>Properties of the trade lifecycle\<close>

subsection \<open>Loading and saving a trade\<close>

lemma findById_id: "TradeRequestModel_findById trades i = Some t \<Longrightarrow> trade_id t = i"
  by (auto simp: TradeRequestModel_findById_def find_Some_iff)

lemma findById_save:
  "TradeRequestModel_findById trades (trade_id t) \<noteq> None \<Longrightarrow>
   TradeRequestModel_findById (TradeRequestModel_save trades t) (trade_id t) = Some t"
  unfolding TradeRequestModel_findById_def TradeRequestModel_save_def
  by (induction trades) auto

lemma doc_id: "updateTradeStatus_doc t s u = Inr (t', ns) \<Longrightarrow> trade_id t' = trade_id t"
  by (auto simp: updateTradeStatus_doc_def Let_def split: if_splits)

lemma updateTradeStatus_found:
  assumes "TradeRequestModel_findById trades i = Some t"
      and "updateTradeStatus_doc t s u = Inr (t', ns)"
  shows "TradeRequestModel_findById (fst (snd (updateTradeStatus trades i s u))) i = Some t'"
proof -
  have "trade_id t' = i" using assms doc_id findById_id by metis
  moreover have "TradeRequestModel_findById trades (trade_id t') \<noteq> None"
    using assms calculation by simp
  ultimately show ?thesis
    using assms findById_save[of trades t'] by (simp add: updateTradeStatus_def)
qed


subsection \<open>The status branches, one at a time\<close>

lemma doc_accepted:
  "updateTradeStatus_doc t ''accepted'' u =
     (if u = trade_sender t \<or> u = trade_receiver t
      then Inr (t\<lparr>trade_status := ''accepted''\<rparr>,
                [Notification (trade_sender t) TRADE_REQUEST_ACCEPTED (trade_id t)])
      else Inl (ApiError 403 ''Not authorized''))"
  by (simp add: updateTradeStatus_doc_def Let_def)

lemma doc_rejected:
  "updateTradeStatus_doc t ''rejected'' u =
     (if u = trade_sender t \<or> u = trade_receiver t
      then Inr (t\<lparr>trade_status := ''rejected''\<rparr>,
                [Notification (trade_sender t) TRADE_REQUEST_REJECTED (trade_id t)])
      else Inl (ApiError 403 ''Not authorized''))"
  by (simp add: updateTradeStatus_doc_def Let_def)

lemma doc_completed:
  "updateTradeStatus_doc t ''completed'' u =
     (if u = trade_sender t \<or> u = trade_receiver t
      then (let cb = (if u \<in> set (trade_completedBy t) then trade_completedBy t
                      else trade_completedBy t @ [u])
            in if length cb = 2 \<and> trade_sender t \<in> set cb \<and> trade_receiver t \<in> set cb
               then Inr (t\<lparr>trade_completedBy := cb, trade_status := ''completed''\<rparr>,
                         [Notification (trade_sender t) TRADE_REQUEST_COMPLETED (trade_id t),
                          Notification (trade_receiver t) TRADE_REQUEST_COMPLETED (trade_id t)])
               else Inr (t\<lparr>trade_completedBy := cb\<rparr>,
                         [Notification (if u = trade_sender t then trade_receiver t
                                        else trade_sender t) TRADE_MARKED_COMPLETE (trade_id t)]))
      else Inl (ApiError 403 ''Not authorized''))"
  unfolding updateTradeStatus_doc_def Let_def list_ex_iff
  by (cases "u \<in> set (trade_completedBy t)") auto

lemma doc_invalid:
  "s \<noteq> ''accepted'' \<Longrightarrow> s \<noteq> ''rejected'' \<Longrightarrow> s \<noteq> ''completed'' \<Longrightarrow>
   updateTradeStatus_doc t s u =
     (if u = trade_sender t \<or> u = trade_receiver t
      then Inl (ApiError 400 ''Invalid status'') else Inl (ApiError 403 ''Not authorized''))"
  by (simp add: updateTradeStatus_doc_def Let_def)





lemma doc_step:
  assumes "updateTradeStatus_doc t s u = Inr (t', ns)"
  shows "prefix (trade_completedBy t) (trade_completedBy t') \<and>
         trade_id t' = trade_id t \<and>
         trade_sender t' = trade_sender t \<and> trade_receiver t' = trade_receiver t \<and>
         (trade_status t' = trade_status t \<or>
          (s \<in> {''accepted'', ''rejected''} \<and> trade_status t' = s) \<or>
          (s = ''completed'' \<and> trade_status t' = ''completed'' \<and>
           trade_sender t \<in> set (trade_completedBy t') \<and>
           trade_receiver t \<in> set (trade_completedBy t')))"
proof -
  consider "s = ''accepted''" | "s = ''rejected''" | "s = ''completed''"
    | "s \<noteq> ''accepted''" "s \<noteq> ''rejected''" "s \<noteq> ''completed''" by blast
  then show ?thesis
  proof cases
    case 1
    then show ?thesis using assms by (auto simp: doc_accepted split: if_splits)
  next
    case 2
    then show ?thesis using assms by (auto simp: doc_rejected split: if_splits)
  next
    case 3
    define cb where "cb = (if u \<in> set (trade_completedBy t) then trade_completedBy t
                      else trade_completedBy t @ [u])"
    have pre: "prefix (trade_completedBy t) cb" by (simp add: cb_def)
    have d: "updateTradeStatus_doc t ''completed'' u = Inr (t', ns)" using assms 3 by simp
    have part: "u = trade_sender t \<or> u = trade_receiver t"
      using d by (auto simp: doc_completed split: if_splits)
    note d' = d[unfolded doc_completed Let_def, folded cb_def]
    show ?thesis
    proof (cases "length cb = 2 \<and> trade_sender t \<in> set cb \<and> trade_receiver t \<in> set cb")
      case True
      then have "t' = t\<lparr>trade_completedBy := cb, trade_status := ''completed''\<rparr>"
        using d' part by simp
      then show ?thesis using True pre 3 by simp
    next
      case False
      then have "t' = t\<lparr>trade_completedBy := cb\<rparr>"
        using d' part by auto
      then show ?thesis using pre by simp
    qed
  next
    case 4
    then show ?thesis using assms by (simp add: doc_invalid split: if_splits)
  qed
qed

lemma updateTradeStatus_step:
  assumes "TradeRequestModel_findById trades i = Some t"
  shows "TradeRequestModel_findById (fst (snd (updateTradeStatus trades i s u))) i = Some t \<or>
         (\<exists>t' ns. updateTradeStatus_doc t s u = Inr (t', ns) \<and>
            TradeRequestModel_findById (fst (snd (updateTradeStatus trades i s u))) i = Some t')"
proof (cases "updateTradeStatus_doc t s u")
  case (Inl e)
  then show ?thesis using assms by (simp add: updateTradeStatus_def)
next
  case (Inr r)
  then obtain t' ns where "updateTradeStatus_doc t s u = Inr (t', ns)" by (cases r) auto
  then show ?thesis using updateTradeStatus_found[OF assms] by blast
qed

subsection \<open>Dual confirmation\<close>



subsection \<open>Status transitions over a sequence of requests\<close>




subsection \<open>Duplicate suppression\<close>







section \<open>Properties of the review engine\<close>

subsection \<open>Trimming\<close>


lemma trim_length_le: "length (trim s) \<le> length s"
proof -
  have "length (dropWhile is_whitespace (rev (dropWhile is_whitespace s)))
          \<le> length (rev (dropWhile is_whitespace s))"
    by (rule length_dropWhile_le)
  also have "\<dots> \<le> length s" by (simp add: length_dropWhile_le)
  finally show ?thesis by (simp add: trim_def)
qed


lemma dropWhile_fixed: "xs = [] \<or> \<not> P (hd xs) \<Longrightarrow> dropWhile P xs = xs"
  by (cases xs) auto

lemma last_dropWhile: "dropWhile P xs \<noteq> [] \<Longrightarrow> last (dropWhile P xs) = last xs"
  by (induction xs) (auto split: if_splits)

lemma trim_idem: "trim (trim s) = trim s"
proof -
  define t where "t = dropWhile is_whitespace s"
  define r where "r = dropWhile is_whitespace (rev t)"
  have tr: "trim s = rev r" by (simp add: trim_def t_def r_def)
  have "dropWhile is_whitespace (rev r) = rev r"
  proof (cases "r = []")
    case True
    then show ?thesis by simp
  next
    case False
    then have "last r = last (rev t)" unfolding r_def by (rule last_dropWhile)
    moreover have "t \<noteq> []" using False r_def by auto
    ultimately have "last r = hd t" by (simp add: last_rev)
    moreover have "\<not> is_whitespace (hd t)" using \<open>t \<noteq> []\<close> unfolding t_def by (rule hd_dropWhile)
    ultimately have "\<not> is_whitespace (hd (rev r))" using False by (simp add: hd_rev)
    then show ?thesis by (intro dropWhile_fixed) simp
  qed
  moreover have "dropWhile is_whitespace r = r"
    unfolding r_def by (simp add: dropWhile_idem)
  ultimately have "trim (rev r) = rev r" by (simp add: trim_def)
  then show ?thesis unfolding tr .
qed


subsection \<open>The checks of \<^verbatim>\<open>submitReview\<close> in order\<close>

lemma validate_NoneD:
  assumes "validateReviewInput rating reviewText revieweeId = None"
  shows "1 \<le> the rating \<and> the rating \<le> 5 \<and> trim (the reviewText) \<noteq> [] \<and>
         length (the reviewText) \<le> 500 \<and> revieweeId = Some (the revieweeId)"
  using assms
  by (cases revieweeId) (auto simp: validateReviewInput_def falsy_def split: if_splits)

lemma validate_error_400:
  "validateReviewInput rating reviewText revieweeId = Some e \<Longrightarrow> \<exists>m. e = ApiError 400 m"
  by (auto simp: validateReviewInput_def split: if_splits)

lemma ReviewModel_create_ok:
  assumes "1 \<le> x" "x \<le> 5" "trim s \<noteq> []" "length s \<le> 500"
      and "ReviewModel_findOne reviews tradeId reviewerId revieweeId = None"
  shows "ReviewModel_create reviews
           \<lparr> review_id = newId, review_tradeRequest = tradeId, review_reviewer = reviewerId,
             review_reviewee = revieweeId, review_rating = x, review_review = trim s,
             review_skillReviewed = skill, review_createdAt = now \<rparr>
         = Inr \<lparr> review_id = newId, review_tradeRequest = tradeId, review_reviewer = reviewerId,
             review_reviewee = revieweeId, review_rating = x, review_review = trim s,
             review_skillReviewed = skill, review_createdAt = now \<rparr>"
proof -
  have "length (trim s) \<le> 500" using trim_length_le[of s] assms(4) by linarith
  then show ?thesis using assms by (simp add: ReviewModel_create_def trim_idem)
qed

lemma submitReview_checked:
  assumes v: "validateReviewInput rating reviewText revieweeId = None"
      and f: "TradeRequestModel_findById trades tradeId = Some t"
      and c: "trade_status t = ''completed''"
  shows "submitReview trades reviews profiles tradeId reviewerId rating reviewText revieweeId
           newId now fault =
     (if trade_sender t \<noteq> reviewerId \<and> trade_receiver t \<noteq> reviewerId
      then (Inl (ApiError 403 ''You are not authorized to review this trade''), reviews, profiles, [])
      else if \<not> ((trade_sender t = reviewerId \<and> trade_receiver t = the revieweeId) \<or>
                  (trade_receiver t = reviewerId \<and> trade_sender t = the revieweeId))
      then (Inl (ApiError 400 ''You can only review the other party in this trade''),
            reviews, profiles, [])
      else if ReviewModel_findOne reviews tradeId reviewerId (the revieweeId) \<noteq> None
      then (Inl (ApiError 400 ''You have already reviewed this trade''), reviews, profiles, [])
      else
        (let newReview =
               \<lparr> review_id = newId, review_tradeRequest = tradeId, review_reviewer = reviewerId,
                 review_reviewee = the revieweeId, review_rating = the rating,
                 review_review = trim (the reviewText),
                 review_skillReviewed = (if trade_sender t = reviewerId
                                         then trade_receiverOfferedSkill t
                                         else trade_senderOfferedSkill t),
                 review_createdAt = now \<rparr>
         in (Inr newReview, reviews @ [newReview],
             updateUserRating (reviews @ [newReview]) profiles (StringValue (the revieweeId)) fault,
             [Notification (the revieweeId) REVIEW_RECEIVED tradeId])))"
proof -
  note d = validate_NoneD[OF v]
  have cr: "ReviewModel_findOne reviews tradeId rid re = None \<Longrightarrow>
        ReviewModel_create reviews
           \<lparr> review_id = newId, review_tradeRequest = tradeId, review_reviewer = rid,
             review_reviewee = re, review_rating = the rating,
             review_review = trim (the reviewText),
             review_skillReviewed = skill, review_createdAt = now \<rparr>
         = Inr \<lparr> review_id = newId, review_tradeRequest = tradeId, review_reviewer = rid,
             review_reviewee = re, review_rating = the rating,
             review_review = trim (the reviewText),
             review_skillReviewed = skill, review_createdAt = now \<rparr>" for skill rid re
    using d by (intro ReviewModel_create_ok) auto
  show ?thesis
    unfolding submitReview_def by (simp add: v f c Let_def cr)
qed


lemma findOne_Some_iff:
  "ReviewModel_findOne reviews tradeId reviewerId revieweeId \<noteq> None \<longleftrightarrow>
   (\<exists>r \<in> set reviews. review_tradeRequest r = tradeId \<and> review_reviewer r = reviewerId \<and>
        review_reviewee r = revieweeId)"
  by (auto simp: ReviewModel_findOne_def find_None_iff)

lemma submitReview_Inr_stored:
  assumes "submitReview trades reviews profiles tradeId reviewerId rating reviewText revieweeId
             newId now fault = (Inr r, reviews', profiles', ns)"
  shows "r \<in> set reviews' \<and> review_tradeRequest r = tradeId \<and> review_reviewer r = reviewerId \<and>
         revieweeId = Some (review_reviewee r) \<and>
         (\<exists>t. TradeRequestModel_findById trades tradeId = Some t \<and>
              ((trade_sender t = reviewerId \<and> trade_receiver t = review_reviewee r) \<or>
               (trade_receiver t = reviewerId \<and> trade_sender t = review_reviewee r)))"
proof -
  have v: "validateReviewInput rating reviewText revieweeId = None"
    using assms by (auto simp: submitReview_def split: option.splits)
  then obtain t where t: "TradeRequestModel_findById trades tradeId = Some t"
    using assms by (auto simp: submitReview_def split: option.splits)
  have c: "trade_status t = ''completed''"
    using assms v t by (auto simp: submitReview_def split: if_splits)
  note d = validate_NoneD[OF v]
  show ?thesis
    using assms d t unfolding submitReview_checked[OF v t c]
    by (auto simp: Let_def split: if_splits)
qed

subsection \<open>Input validation\<close>




subsection \<open>The example review\<close>

lemma trim_fine: "trim ''fine'' = ''fine''" by (simp add: trim_def is_whitespace_def)

lemma ex_valid: "validateReviewInput (Some 3) (Some ''fine'') (Some ''bob'') = None"
  by (simp add: validateReviewInput_def falsy_def falsy_num_def trim_fine)

lemma ex_found: "TradeRequestModel_findById [example_completed_trade] ''t1'' = Some example_completed_trade"
  by (simp add: TradeRequestModel_findById_def example_completed_trade_def example_trade_def)

lemma ex_submit:
  "submitReview [example_completed_trade] example_reviews example_profiles ''t1'' ''alice''
       (Some 3) (Some ''fine'') (Some ''bob'') ''r3'' 7 fault
   = (let newReview = \<lparr> review_id = ''r3'', review_tradeRequest = ''t1'', review_reviewer = ''alice'',
        review_reviewee = ''bob'', review_rating = 3, review_review = ''fine'',
        review_skillReviewed = ''chess'', review_createdAt = 7 \<rparr> in
     (Inr newReview, example_reviews @ [newReview],
      updateUserRating (example_reviews @ [newReview]) example_profiles (StringValue ''bob'') fault,
      [Notification ''bob'' REVIEW_RECEIVED ''t1'']))"
proof -
  have c: "trade_status example_completed_trade = ''completed''"
    by (simp add: example_completed_trade_def)
  have n: "ReviewModel_findOne example_reviews ''t1'' ''alice'' ''bob'' = None"
    by (simp add: ReviewModel_findOne_def example_reviews_def)
  show ?thesis
    unfolding submitReview_checked[OF ex_valid ex_found c]
    using n by (simp add: example_completed_trade_def example_trade_def trim_fine)
qed

subsection \<open>Review exclusivity\<close>

text \<open>
  With a review stored for the triple, a further \<^verbatim>\<open>submitReview\<close> for it always
  fails and stores nothing; the error is a 400 error when the trade is stored and
  reviewer and reviewee are its two participants.
\<close>

lemma review_exclusivity_stored:
  assumes stored: "r \<in> set reviews"
      and triple: "review_tradeRequest r = tradeId" "review_reviewer r = reviewerId"
                  "review_reviewee r = revieweeId"
  shows "(\<exists>e. submitReview trades reviews profiles tradeId reviewerId rating reviewText
               (Some revieweeId) newId now fault = (Inl e, reviews, profiles, [])) \<and>
         ((\<exists>t. TradeRequestModel_findById trades tradeId = Some t \<and>
               ((trade_sender t = reviewerId \<and> trade_receiver t = revieweeId) \<or>
                (trade_receiver t = reviewerId \<and> trade_sender t = revieweeId))) \<longrightarrow>
          (\<exists>m. submitReview trades reviews profiles tradeId reviewerId rating reviewText
               (Some revieweeId) newId now fault = (Inl (ApiError 400 m), reviews, profiles, [])))"
proof -
  let ?res = "submitReview trades reviews profiles tradeId reviewerId rating reviewText
               (Some revieweeId) newId now fault"
  have ex: "ReviewModel_findOne reviews tradeId reviewerId revieweeId \<noteq> None"
    using stored triple findOne_Some_iff[of reviews tradeId reviewerId revieweeId] by blast
  show ?thesis
  proof (cases "validateReviewInput rating reviewText (Some revieweeId)")
    case (Some e)
    then have "?res = (Inl e, reviews, profiles, [])" by (simp add: submitReview_def)
    then show ?thesis using validate_error_400[OF Some] by auto
  next
    case None
    show ?thesis
    proof (cases "TradeRequestModel_findById trades tradeId")
      case N: None
      then have "?res = (Inl (ApiError 404 ''Trade request not found''), reviews, profiles, [])"
        using None by (simp add: submitReview_def)
      then show ?thesis using N by simp
    next
      case (Some t)
      show ?thesis
      proof (cases "trade_status t = ''completed''")
        case False
        then have "?res = (Inl (ApiError 400 ''You can only review completed trades''),
                           reviews, profiles, [])"
          using None Some by (simp add: submitReview_def)
        then show ?thesis by simp
      next
        case True
        note eq = submitReview_checked[OF None Some True, of reviews profiles reviewerId newId
                     now fault, unfolded option.sel]
        let ?outsider = "trade_sender t \<noteq> reviewerId \<and> trade_receiver t \<noteq> reviewerId"
        let ?paired = "(trade_sender t = reviewerId \<and> trade_receiver t = revieweeId) \<or>
                       (trade_receiver t = reviewerId \<and> trade_sender t = revieweeId)"
        have paired: "\<exists>m. ?res = (Inl (ApiError 400 m), reviews, profiles, [])" if p: ?paired
        proof -
          have no: "\<not> ?outsider" using p by auto
          have np: "\<not> \<not> ?paired" using p by blast
          from eq[unfolded if_not_P[OF no] if_not_P[OF np] if_P[OF ex]] show ?thesis by blast
        qed
        have a: "\<exists>e. ?res = (Inl e, reviews, profiles, [])"
        proof (cases ?outsider)
          case o: True
          from eq[unfolded if_P[OF o]] show ?thesis by blast
        next
          case o: False
          show ?thesis
          proof (cases ?paired)
            case True
            then show ?thesis using paired by blast
          next
            case False
            from eq[unfolded if_not_P[OF o] if_P[OF False]] show ?thesis by blast
          qed
        qed
        note b = paired
        show ?thesis using a b Some by auto
      qed
    qed
  qed
qed

text \<open>
  In the stores the handlers can reach, every review is of a stored trade and between
  its two participants: a new trade is appended, a status update keeps sender and
  receiver, and \<^verbatim>\<open>submitReview\<close> has checked the new review.
\<close>

lemma findById_append:
  "TradeRequestModel_findById trades i = Some t \<Longrightarrow>
   TradeRequestModel_findById (trades @ ts) i = Some t"
  unfolding TradeRequestModel_findById_def by (induction trades) auto

lemma createTradeRequest_store:
  "fst (snd (createTradeRequest trades senderId receiverId senderOfferedSkillId
               receiverOfferedSkillId msg newId now)) = trades \<or>
   (\<exists>t. fst (snd (createTradeRequest trades senderId receiverId senderOfferedSkillId
               receiverOfferedSkillId msg newId now)) = trades @ [t])"
  by (simp add: createTradeRequest_def Let_def split: option.splits)

lemma findById_save_other:
  "j \<noteq> trade_id t \<Longrightarrow>
   TradeRequestModel_findById (TradeRequestModel_save trades t) j = TradeRequestModel_findById trades j"
  unfolding TradeRequestModel_findById_def TradeRequestModel_save_def
  by (induction trades) auto

lemma updateTradeStatus_other:
  assumes "j \<noteq> i"
  shows "TradeRequestModel_findById (fst (snd (updateTradeStatus trades i statusReq userId))) j
           = TradeRequestModel_findById trades j"
proof (cases "TradeRequestModel_findById trades i")
  case None
  then show ?thesis by (simp add: updateTradeStatus_def)
next
  case (Some t)
  show ?thesis
  proof (cases "updateTradeStatus_doc t statusReq userId")
    case (Inl e)
    then show ?thesis using Some by (simp add: updateTradeStatus_def)
  next
    case (Inr p)
    obtain t' ns where p: "p = (t', ns)" by (cases p)
    have "trade_id t' = i" using Inr p doc_id findById_id[OF Some] by metis
    then show ?thesis using Some Inr p assms
      by (simp add: updateTradeStatus_def findById_save_other)
  qed
qed

lemma updateTradeStatus_participants:
  assumes "participants trades r"
  shows "participants (fst (snd (updateTradeStatus trades i statusReq userId))) r"
proof (cases "review_tradeRequest r = i")
  case False
  then show ?thesis using assms updateTradeStatus_other[of "review_tradeRequest r" i]
    by (simp add: participants_def)
next
  case True
  from assms obtain t where t: "TradeRequestModel_findById trades i = Some t"
    and p: "(trade_sender t = review_reviewer r \<and> trade_receiver t = review_reviewee r) \<or>
            (trade_receiver t = review_reviewer r \<and> trade_sender t = review_reviewee r)"
    using True by (auto simp: participants_def)
  from updateTradeStatus_step[OF t, of statusReq userId]
  show ?thesis
  proof
    assume "TradeRequestModel_findById (fst (snd (updateTradeStatus trades i statusReq userId))) i
              = Some t"
    then show ?thesis using p True by (auto simp: participants_def)
  next
    assume "\<exists>t' ns. updateTradeStatus_doc t statusReq userId = Inr (t', ns) \<and>
      TradeRequestModel_findById (fst (snd (updateTradeStatus trades i statusReq userId))) i = Some t'"
    then obtain t' ns where d: "updateTradeStatus_doc t statusReq userId = Inr (t', ns)"
      and f: "TradeRequestModel_findById (fst (snd (updateTradeStatus trades i statusReq userId))) i
                = Some t'"
      by blast
    from doc_step[OF d] have "trade_sender t' = trade_sender t" "trade_receiver t' = trade_receiver t"
      by simp_all
    then show ?thesis using f p True by (auto simp: participants_def)
  qed
qed

lemma submitReview_store:
  "fst (snd (submitReview trades reviews profiles tradeId reviewerId rating reviewText
               revieweeId newId now fault)) = reviews \<or>
   (\<exists>r. fst (submitReview trades reviews profiles tradeId reviewerId rating reviewText
               revieweeId newId now fault) = Inr r \<and>
        fst (snd (submitReview trades reviews profiles tradeId reviewerId rating reviewText
               revieweeId newId now fault)) = reviews @ [r])"
proof (cases "validateReviewInput rating reviewText revieweeId")
  case (Some e)
  then show ?thesis by (simp add: submitReview_def)
next
  case None
  show ?thesis
  proof (cases "TradeRequestModel_findById trades tradeId")
    case N: None
    then show ?thesis using None by (simp add: submitReview_def)
  next
    case (Some t)
    show ?thesis
    proof (cases "trade_status t = ''completed''")
      case False
      then show ?thesis using None Some by (simp add: submitReview_def)
    next
      case True
      show ?thesis unfolding submitReview_checked[OF None Some True] by (simp add: Let_def)
    qed
  qed
qed

lemma reachable_participants:
  "reachable trades reviews \<Longrightarrow> \<forall>r \<in> set reviews. participants trades r"
proof (induction rule: reachable.induct)
  case initial
  then show ?case by simp
next
  case (created trades reviews senderId receiverId senderOfferedSkillId receiverOfferedSkillId
          msg newId now)
  from createTradeRequest_store[of trades senderId receiverId senderOfferedSkillId
         receiverOfferedSkillId msg newId now]
  show ?case using created.IH by (auto simp: participants_def findById_append)
next
  case (updated trades reviews i statusReq userId)
  then show ?case using updateTradeStatus_participants by blast
next
  case (reviewed trades reviews profiles tradeId reviewerId rating reviewText revieweeId newId
          now fault)
  from submitReview_store[of trades reviews profiles tradeId reviewerId rating reviewText
         revieweeId newId now fault]
  show ?case
  proof
    assume "fst (snd (submitReview trades reviews profiles tradeId reviewerId rating reviewText
               revieweeId newId now fault)) = reviews"
    then show ?thesis using reviewed.IH by simp
  next
    assume "\<exists>r. fst (submitReview trades reviews profiles tradeId reviewerId rating reviewText
               revieweeId newId now fault) = Inr r \<and>
        fst (snd (submitReview trades reviews profiles tradeId reviewerId rating reviewText
               revieweeId newId now fault)) = reviews @ [r]"
    then obtain r where r: "fst (submitReview trades reviews profiles tradeId reviewerId rating
               reviewText revieweeId newId now fault) = Inr r"
      and st: "fst (snd (submitReview trades reviews profiles tradeId reviewerId rating reviewText
               revieweeId newId now fault)) = reviews @ [r]"
      by blast
    obtain reviews' profiles' ns where "submitReview trades reviews profiles tradeId reviewerId
               rating reviewText revieweeId newId now fault = (Inr r, reviews', profiles', ns)"
      using r by (metis fst_conv prod.exhaust_sel)
    from submitReview_Inr_stored[OF this] have "participants trades r"
      by (auto simp: participants_def)
    then show ?thesis using st reviewed.IH by auto
  qed
qed

lemma ex_reachable_trade: "reachable [example_completed_trade] []"
proof -
  have c: "fst (snd (createTradeRequest [] ''alice'' (Some ''bob'') (Some ''piano'')
                       (Some ''chess'') None ''t1'' 0)) = [example_trade]"
    by (simp add: createTradeRequest_def falsy_def example_trade_def Let_def)
  have u1: "fst (snd (updateTradeStatus [example_trade] ''t1'' ''completed'' ''alice''))
              = [example_trade\<lparr>trade_completedBy := [''alice'']\<rparr>]"
    by (simp add: updateTradeStatus_def TradeRequestModel_findById_def doc_completed
        TradeRequestModel_save_def example_trade_def)
  have u2: "fst (snd (updateTradeStatus [example_trade\<lparr>trade_completedBy := [''alice'']\<rparr>]
                        ''t1'' ''completed'' ''bob'')) = [example_completed_trade]"
    by (simp add: updateTradeStatus_def TradeRequestModel_findById_def doc_completed
        TradeRequestModel_save_def example_trade_def example_completed_trade_def)
  have "reachable [example_trade] []"
    using reachable.created[OF reachable.initial, of "''alice''" "Some ''bob''" "Some ''piano''"
            "Some ''chess''" None "''t1''" 0]
    by (simp only: c)
  then have "reachable [example_trade\<lparr>trade_completedBy := [''alice'']\<rparr>] []"
    using reachable.updated[of "[example_trade]" "[]" "''t1''" "''completed''" "''alice''"]
    by (simp only: u1)
  then show ?thesis
    using reachable.updated[of "[example_trade\<lparr>trade_completedBy := [''alice'']\<rparr>]" "[]"
            "''t1''" "''completed''" "''bob''"]
    by (simp only: u2)
qed

lemma ex_first_review:
  "submitReview [example_completed_trade] [] example_profiles ''t1'' ''alice''
       (Some 3) (Some ''fine'') (Some ''bob'') ''r3'' 7 False
   = (Inr example_review, [example_review],
      updateUserRating [example_review] example_profiles (StringValue ''bob'') False,
      [Notification ''bob'' REVIEW_RECEIVED ''t1''])"
proof -
  have c: "trade_status example_completed_trade = ''completed''"
    by (simp add: example_completed_trade_def)
  have n: "ReviewModel_findOne [] ''t1'' ''alice'' ''bob'' = None"
    by (simp add: ReviewModel_findOne_def)
  show ?thesis
    unfolding submitReview_checked[OF ex_valid ex_found c]
    using n by (simp add: example_completed_trade_def example_trade_def trim_fine
                  example_review_def Let_def)
qed

lemma ex_reachable: "reachable [example_completed_trade] [example_review]"
  using reachable.reviewed[OF ex_reachable_trade, of example_profiles "''t1''" "''alice''"
          "Some 3" "Some ''fine''" "Some ''bob''" "''r3''" 7 False]
  by (simp add: ex_first_review)

text \<open>
  C4. In every state the handlers can reach, once a review is stored for
  (trade, reviewer, reviewee), every further \<^verbatim>\<open>submitReview\<close> for that triple,
  whatever its rating and text, fails with a 400 error and leaves the reviews and the
  profiles as they were.
\<close>

theorem review_exclusivity:
  assumes reach: "reachable trades reviews"
      and stored: "r \<in> set reviews"
      and triple: "review_tradeRequest r = tradeId" "review_reviewer r = reviewerId"
                  "review_reviewee r = revieweeId"
  shows "\<exists>m. submitReview trades reviews profiles tradeId reviewerId rating reviewText
               (Some revieweeId) newId now fault = (Inl (ApiError 400 m), reviews, profiles, [])"
proof -
  have "participants trades r" using reachable_participants[OF reach] stored by blast
  then have "\<exists>t. TradeRequestModel_findById trades tradeId = Some t \<and>
               ((trade_sender t = reviewerId \<and> trade_receiver t = revieweeId) \<or>
                (trade_receiver t = reviewerId \<and> trade_sender t = revieweeId))"
    using triple by (simp add: participants_def)
  then show ?thesis using review_exclusivity_stored[OF stored triple] by blast
qed

theorem review_exclusivity_witness:
  "reachable [example_completed_trade] [example_review] \<and>
   example_review \<in> set [example_review] \<and>
   review_tradeRequest example_review = ''t1'' \<and> review_reviewer example_review = ''alice'' \<and>
   review_reviewee example_review = ''bob'' \<and>
   submitReview [example_completed_trade] [example_review] example_profiles ''t1'' ''alice''
       (Some 1) (Some ''bad'') (Some ''bob'') ''r4'' 8 False
     = (Inl (ApiError 400 ''You have already reviewed this trade''), [example_review],
        example_profiles, [])"
proof -
  have t: "review_tradeRequest example_review = ''t1''" "review_reviewer example_review = ''alice''"
     "review_reviewee example_review = ''bob''"
    by (simp_all add: example_review_def)
  have m: "example_review \<in> set [example_review]" by simp
  from review_exclusivity[OF ex_reachable m t, where profiles = example_profiles
         and rating = "Some 1" and reviewText = "Some ''bad''" and newId = "''r4''" and now = 8
         and fault = False]
  obtain msg where r: "submitReview [example_completed_trade] [example_review] example_profiles
       ''t1'' ''alice'' (Some 1) (Some ''bad'') (Some ''bob'') ''r4'' 8 False
     = (Inl (ApiError 400 msg), [example_review], example_profiles, [])"
    by blast
  have v: "validateReviewInput (Some 1) (Some ''bad'') (Some ''bob'') = None"
    by (simp add: validateReviewInput_def falsy_def falsy_num_def trim_def is_whitespace_def)
  have c: "trade_status example_completed_trade = ''completed''"
    by (simp add: example_completed_trade_def)
  have "fst (submitReview [example_completed_trade] [example_review] example_profiles
       ''t1'' ''alice'' (Some 1) (Some ''bad'') (Some ''bob'') ''r4'' 8 False)
     = Inl (ApiError 400 ''You have already reviewed this trade'')"
    unfolding submitReview_checked[OF v ex_found c]
    by (simp add: example_completed_trade_def example_trade_def ReviewModel_findOne_def
        example_review_def)
  then have "msg = ''You have already reviewed this trade''" using r by simp
  then show ?thesis using r t ex_reachable by simp
qed

subsection \<open>Review pairing\<close>




subsection \<open>The aggregate rating\<close>

lemma aggregate_string_empty [simp]:
  "ReviewModel_aggregate_rating reviews (StringValue s) = []"
  by (simp add: ReviewModel_aggregate_rating_def pipeline_match_def)

lemma updateUserRating_string:
  "updateUserRating reviews profiles (StringValue s) False =
     SkillProfileModel_findOneAndUpdate profiles s 0"
  by (simp add: updateUserRating_def hex_of_def Math_round_def)

lemma updateUserRating_fault: "updateUserRating reviews profiles userId True = profiles"
  by (simp add: updateUserRating_def)

lemma pipeline_match_objectId: "pipeline_match stored (ObjectIdValue u) = (stored = u)"
  by (auto simp: pipeline_match_def)

lemma aggregate_objectId:
  "ReviewModel_aggregate_rating reviews (ObjectIdValue u) =
     (let rs = filter (\<lambda>r. review_reviewee r = u) reviews in
      if rs = [] then [] else [(sum_list (map review_rating rs) / real (length rs), length rs)])"
  by (simp add: ReviewModel_aggregate_rating_def pipeline_match_objectId)

text \<open>
  A failure inside \<^verbatim>\<open>updateUserRating\<close> changes neither the response nor the
  reviews stored: the review is created all the same.
\<close>

lemma submitReview_fault_swallowed:
  "fst (submitReview trades reviews profiles tradeId reviewerId rating reviewText revieweeId
          newId now True)
     = fst (submitReview trades reviews profiles tradeId reviewerId rating reviewText revieweeId
              newId now False) \<and>
   fst (snd (submitReview trades reviews profiles tradeId reviewerId rating reviewText
               revieweeId newId now True))
     = fst (snd (submitReview trades reviews profiles tradeId reviewerId rating reviewText
                   revieweeId newId now False))"
  by (simp add: submitReview_def Let_def split: option.splits sum.splits)

text \<open>
  With an ObjectId the pipeline gives what the claim says: for the ratings 5, 4 and 3
  of the example the profile gets the rating 4.
\<close>

lemma updateUserRating_objectId_example:
  "updateUserRating (example_reviews @ [\<lparr> review_id = ''r3'', review_tradeRequest = ''t1'', review_reviewer = ''alice'',
        review_reviewee = ''bob'', review_rating = 3, review_review = ''fine'',
        review_skillReviewed = ''chess'', review_createdAt = 7 \<rparr>]) example_profiles (ObjectIdValue ''bob'') False
   = [\<lparr> profile_userId = ''bob'', profile_rating = 4 \<rparr>]"
  by (simp add: updateUserRating_def aggregate_objectId example_reviews_def example_profiles_def
     hex_of_def Math_round_def Let_def)

text \<open>
  C6. \<^verbatim>\<open>submitReview\<close> hands \<^verbatim>\<open>updateUserRating\<close> the reviewee identifier of
  the request body, a string, and the pipeline matches it against stored ObjectIds. In
  the example Bob has the ratings 5 and 4 and Alice adds the rating 3: the three
  ratings are stored, their mean rounded to one decimal place is 4, and the rating
  written to Bob's profile is 0.
\<close>

theorem stored_rating_after_review:
  "fst (snd (snd (submitReview [example_completed_trade] example_reviews example_profiles
       ''t1'' ''alice'' (Some 3) (Some ''fine'') (Some ''bob'') ''r3'' 7 False)))
     = [\<lparr> profile_userId = ''bob'', profile_rating = 0 \<rparr>] \<and>
   map review_rating (filter (\<lambda>r. review_reviewee r = ''bob'')
       (fst (snd (submitReview [example_completed_trade] example_reviews example_profiles
       ''t1'' ''alice'' (Some 3) (Some ''fine'') (Some ''bob'') ''r3'' 7 False))))
     = [5, 4, 3] \<and>
   Math_round (sum_list [5, 4, 3] / 3 * 10) / 10 = 4"
  unfolding ex_submit
  by (simp add: Let_def updateUserRating_string example_profiles_def example_reviews_def
      Math_round_def)

section \<open>Properties of the chat\<close>

text \<open>
  C8. \<^verbatim>\<open>getChatHistory\<close> for a trade and a user returns the messages of the trade,
  each once, sorted by creation time. In the store afterwards every message of the
  trade addressed to the user is the old message with \<^verbatim>\<open>read\<close> true, and every
  other message, of another trade or addressed to someone else, is unchanged.
\<close>

theorem read_marking:
  "mset (fst (getChatHistory msgs tradeId userId))
     = mset (filter (\<lambda>m. msg_tradeId m = tradeId) msgs) \<and>
   sorted (map msg_createdAt (fst (getChatHistory msgs tradeId userId))) \<and>
   length (snd (getChatHistory msgs tradeId userId)) = length msgs \<and>
   (\<forall>k < length msgs.
      (msg_tradeId (msgs ! k) = tradeId \<and> msg_receiver (msgs ! k) = userId \<longrightarrow>
         snd (getChatHistory msgs tradeId userId) ! k = (msgs ! k)\<lparr>msg_read := True\<rparr>) \<and>
      (msg_tradeId (msgs ! k) \<noteq> tradeId \<or> msg_receiver (msgs ! k) \<noteq> userId \<longrightarrow>
         snd (getChatHistory msgs tradeId userId) ! k = msgs ! k))"
proof -
  have a: "mset (fst (getChatHistory msgs tradeId userId))
     = mset (filter (\<lambda>m. msg_tradeId m = tradeId) msgs)"
    by (simp add: getChatHistory_def Let_def)
  have b: "sorted (map msg_createdAt (fst (getChatHistory msgs tradeId userId)))"
    by (simp add: getChatHistory_def Let_def)
  have c: "length (snd (getChatHistory msgs tradeId userId)) = length msgs"
    by (simp add: getChatHistory_def Let_def)
  have d: "snd (getChatHistory msgs tradeId userId) ! k = (msgs ! k)\<lparr>msg_read := True\<rparr>"
    if "k < length msgs" "msg_tradeId (msgs ! k) = tradeId \<and> msg_receiver (msgs ! k) = userId" for k
    using that by (cases "msg_read (msgs ! k)") (simp_all add: getChatHistory_def Let_def)
  have e: "snd (getChatHistory msgs tradeId userId) ! k = msgs ! k"
    if "k < length msgs" "msg_tradeId (msgs ! k) \<noteq> tradeId \<or> msg_receiver (msgs ! k) \<noteq> userId" for k
    using that by (auto simp: getChatHistory_def Let_def)
  show ?thesis using a b c d e by blast
qed

theorem read_marking_witness:
  "(1::nat) < length example_messages \<and> (0::nat) < length example_messages \<and>
   msg_tradeId (example_messages ! 0) = ''t1'' \<and> msg_receiver (example_messages ! 0) = ''alice'' \<and>
   snd (getChatHistory example_messages ''t1'' ''alice'') ! 0
     = (example_messages ! 0)\<lparr>msg_read := True\<rparr> \<and>
   msg_receiver (example_messages ! 1) \<noteq> ''alice'' \<and>
   snd (getChatHistory example_messages ''t1'' ''alice'') ! 1 = example_messages ! 1 \<and>
   map msg_id (fst (getChatHistory example_messages ''t1'' ''alice'')) = [''m1'', ''m2'']"
proof -
  have "map msg_id (fst (getChatHistory example_messages ''t1'' ''alice'')) = [''m1'', ''m2'']"
    by (simp add: getChatHistory_def example_messages_def)
  then show ?thesis
    using read_marking[of example_messages "''t1''" "''alice''"]
    by (simp add: example_messages_def)
qed





section \<open>Properties of the presence registry\<close>

text \<open>
  C10. Let a user join on connection \<open>c1\<close> and then on connection \<open>c2\<close>. The
  registry then maps the user to \<open>c2\<close>. When \<open>c1\<close> disconnects, the user's entry is
  deleted, and \<^verbatim>\<open>sendNotificationToUser\<close> for the user reports no delivery and
  emits nothing.
\<close>

theorem stale_disconnect:
  assumes "u \<noteq> []"
  shows "userSockets (fst (user_join (fst (user_join st users msgs c1 (Some u))) users' msgs' c2 (Some u))) u
           = Some c2 \<and>
         userSockets (disconnect (fst (user_join (fst (user_join st users msgs c1 (Some u)))
                                     users' msgs' c2 (Some u))) c1) u = None \<and>
         sendNotificationToUser
           (disconnect (fst (user_join (fst (user_join st users msgs c1 (Some u)))
                               users' msgs' c2 (Some u))) c1) u event tradeId = (False, [])"
  using assms
  by (simp add: user_join_def disconnect_def sendNotificationToUser_def getUserSocketId_def
      falsy_def Let_def)

theorem stale_disconnect_witness:
  "''alice'' \<noteq> [] \<and>
   userSockets (fst (user_join (fst (user_join example_sockets Map.empty [] ''s1'' (Some ''alice'')))
                  Map.empty [] ''s2'' (Some ''alice''))) ''alice'' = Some ''s2'' \<and>
   sendNotificationToUser
     (disconnect (fst (user_join (fst (user_join example_sockets Map.empty [] ''s1'' (Some ''alice'')))
                         Map.empty [] ''s2'' (Some ''alice''))) ''s1'')
     ''alice'' TRADE_REQUEST_RECEIVED ''t1'' = (False, [])"
  using stale_disconnect[of "''alice''" example_sockets Map.empty "[]" "''s1''" Map.empty "[]" "''s2''"
          TRADE_REQUEST_RECEIVED "''t1''"]
  by simp

end
